theory Spec2Isabelle
  imports Complex_Main "HOL-Library.AList" "HOL-Library.Sublist"
begin

section \<open>Python values\<close>

text \<open>
  The runner is written in Python and reads its batch from a JSON profile, so the values
  it handles are dynamically typed. \<open>pyval\<close> holds what \<open>json.load\<close> can produce:
  \<open>None\<close>, booleans, unbounded integers, floats, strings, lists and dictionaries with
  string keys. A dictionary is an association list in insertion order with distinct keys.
  A float is only ever tested for finiteness and compared with zero, so a finite float is
  represented by the rational number it denotes.
\<close>

datatype pyfloat = Finite rat | PosInf | NegInf | NaN

datatype pyval =
    VNone
  | VBool bool
  | VInt int
  | VFloat pyfloat
  | VStr string
  | VList "pyval list"
  | VDict "(string \<times> pyval) list"

text \<open>
  Exceptions are values. \<open>KeyboardInterrupt\<close> and \<open>OtherBaseException\<close> (for instance
  \<open>SystemExit\<close>) derive from \<open>BaseException\<close> only; the others derive from
  \<open>Exception\<close> and are what an \<open>except Exception\<close> clause catches.
\<close>

datatype exn =
    KeyboardInterrupt
  | OtherBaseException string
  | TypeError
  | KeyError
  | AttributeError
  | OverflowError
  | OtherException string

fun is_Exception :: "exn \<Rightarrow> bool" where
  "is_Exception KeyboardInterrupt = False"
| "is_Exception (OtherBaseException _) = False"
| "is_Exception _ = True"

section \<open>Paths (pathlib, POSIX flavour)\<close>

text \<open>
  \<open>pathlib.Path\<close> is library code; the runner uses \<open>joinpath\<close>, \<open>name\<close>, \<open>suffix\<close>,
  \<open>is_file\<close> and \<open>os.fspath\<close>. A path is its root (\<open>''''\<close>, \<open>''/''\<close> or \<open>''//''\<close>)
  and its components; parsing drops empty components and \<open>.\<close> and keeps \<open>..\<close>.
\<close>

datatype path = Path (path_root: string) (path_parts: "string list")

fun split_on :: "char \<Rightarrow> string \<Rightarrow> string list" where
  "split_on sep [] = [[]]"
| "split_on sep (c # cs) =
     (if c = sep then [] # split_on sep cs
      else (case split_on sep cs of [] \<Rightarrow> [[c]] | w # ws \<Rightarrow> (c # w) # ws))"

fun join_with :: "string \<Rightarrow> string list \<Rightarrow> string" where
  "join_with sep [] = []"
| "join_with sep [x] = x"
| "join_with sep (x # y # ys) = x @ sep @ join_with sep (y # ys)"

definition parse_path :: "string \<Rightarrow> path" where
  "parse_path s =
     Path (if take 2 s = ''//'' \<and> take 3 s \<noteq> ''///'' then ''//''
           else if take 1 s = ''/'' then ''/'' else [])
          (filter (\<lambda>p. p \<noteq> [] \<and> p \<noteq> ''.'') (split_on CHR ''/'' s))"

definition joinpath :: "path \<Rightarrow> string \<Rightarrow> path" where
  "joinpath p s =
     (let q = parse_path s
      in if path_root q \<noteq> [] then q else Path (path_root p) (path_parts p @ path_parts q))"

definition path_name :: "path \<Rightarrow> string" where
  "path_name p = (if path_parts p = [] then [] else last (path_parts p))"

fun rfind :: "char \<Rightarrow> string \<Rightarrow> nat option" where
  "rfind c [] = None"
| "rfind c (x # xs) =
     (case rfind c xs of
        Some i \<Rightarrow> Some (Suc i)
      | None \<Rightarrow> if x = c then Some 0 else None)"

definition path_suffix :: "path \<Rightarrow> string" where
  "path_suffix p =
     (let n = path_name p
      in case rfind CHR ''.'' n of
           None \<Rightarrow> []
         | Some i \<Rightarrow> if 0 < i \<and> i + 1 < length n then drop i n else [])"

definition fspath :: "path \<Rightarrow> string" where
  "fspath p =
     (if path_root p = [] \<and> path_parts p = [] then ''.''
      else path_root p @ join_with ''/'' (path_parts p))"

section \<open>Data model\<close>

text \<open>
  \<open>TestCaseInfo\<close> is a dataclass: its constructor stores whatever it is given, in the
  order \<open>name, args, env, timeout, skip, skipreason\<close>. The annotations
  (\<open>name: str\<close>, \<open>args: str\<close>, \<open>env: dict[str, str]\<close>, \<open>timeout: float\<close>,
  \<open>skipreason: str\<close>) are not enforced, so these fields hold arbitrary values.
\<close>

record TestCaseInfo =
  name :: pyval
  args :: pyval
  env :: pyval
  timeout :: pyval
  skip :: bool
  skipreason :: pyval

datatype runner_status = Idle | Running

datatype timer_status = Pending | Fired

record runner =
  status :: runner_status
  timer :: "timer_status option"
  case_dir :: path
  log_dir :: path
  dry_run :: bool

text \<open>\<open>BasicTestRunner.__init__\<close>; the installation root \<open>__SOF_TEST_DIR__\<close> is a parameter.\<close>

definition init :: "path \<Rightarrow> bool \<Rightarrow> runner" where
  "init sof_test_dir dry =
     \<lparr> status = Idle, timer = None,
       case_dir = joinpath sof_test_dir ''test-case'',
       log_dir = joinpath sof_test_dir ''logs'',
       dry_run = dry \<rparr>"

section \<open>Command resolver\<close>

text \<open>
  \<open>__resolve_cmd\<close>: the command string is built first, and the concatenation raises
  \<open>TypeError\<close> when \<open>args\<close> is not a string.
\<close>

definition resolve_cmd :: "path \<Rightarrow> pyval \<Rightarrow> exn + string list option" where
  "resolve_cmd filepath a =
     (case a of
        VStr s \<Rightarrow>
          (let cmd = fspath filepath @ '' '' @ s
           in if path_suffix filepath \<in> set [''.sh'', ''.bash''] then Inr (Some [''bash'', ''-c'', cmd])
              else if path_suffix filepath = ''.py'' then Inr (Some [''python'', ''-c'', cmd])
              else Inr None)
      | _ \<Rightarrow> Inl TypeError)"

section \<open>Observable actions and the environment of one run\<close>

text \<open>
  The runner reports through overridable hook methods and acts on the child through
  \<open>subprocess.Popen\<close>, \<open>terminate\<close>, \<open>wait\<close> and a \<open>threading.Timer\<close>. A run is
  observed as the list of these calls, in order. \<open>Handle_exit\<close> carries the three
  arguments of \<open>_handle_exit\<close>: the exit code (or \<open>None\<close>), the interrupt flag and the
  timeout (\<open>VNone\<close> by default).
\<close>

datatype action =
    Handle_skip pyval pyval
  | Handle_unknown_case path
  | Before_cmd_run "string list"
  | After_cmd_run "string list"
  | Handle_output_line string
  | Handle_exit "int option" bool pyval
  | Handle_unknown_exception exn
  | Popen "string list" pyval path
  | Timer_start pyval
  | Timer_cancel
  | Terminate
  | Wait nat

text \<open>
  What the operating system, the child, the timer thread and the user do is the
  environment. While the read loop runs, the environment is a script of events, one
  consumed at a time:
  \<^item> \<open>Readline l\<close>: \<open>proc.stdout.readline()\<close> returns \<open>l\<close> (the empty string at end of file);
  \<^item> \<open>Proc_exits c\<close>: the child ends with exit code \<open>c\<close>, so that \<open>poll()\<close> returns \<open>c\<close> from now on;
  \<^item> \<open>Timer_fires\<close>: the timer thread runs its callback, between two iterations of the loop;
  \<^item> \<open>Raises e\<close>: the current operation of the main thread raises \<open>e\<close>
    (for \<open>KeyboardInterrupt\<close>: the user's interrupt is delivered).
  A script that ends while the loop still runs stands for a \<open>readline\<close> that never returns.

  The timer callback is taken as one step between two iterations of the loop, the hooks
  themselves do not raise, and no second interrupt arrives while the first is handled.
\<close>

datatype env_event =
    Readline string
  | Proc_exits int
  | Timer_fires
  | Raises exn

text \<open>
  \<open>is_file\<close> is the file system; \<open>spawn\<close> is what \<open>Popen\<close> does (\<open>None\<close>: a child is
  created, \<open>Some e\<close>: it raises \<open>e\<close>); \<open>wait10\<close> is what \<open>proc.wait(10)\<close> does after
  \<open>terminate\<close> (\<open>Some c\<close>: the child ended with code \<open>c\<close> in time, \<open>None\<close>:
  \<open>TimeoutExpired\<close> is raised); \<open>late_interrupt\<close> says whether a \<open>KeyboardInterrupt\<close>
  is delivered after the normal exit has been reported and before the \<open>try\<close> block is left.
\<close>

record world =
  is_file :: "path \<Rightarrow> bool"
  spawn :: "exn option"
  script :: "env_event list"
  wait10 :: "int option"
  late_interrupt :: bool

text \<open>
  The state of one run: the runner object, what \<open>proc.poll()\<close> returns at this moment
  (\<open>None\<close> while the child is alive) and the actions so far.
\<close>

record st =
  self :: runner
  poll :: "int option"
  log :: "action list"

datatype outcome = Returned | Raised exn | Blocked

definition emit :: "action \<Rightarrow> st \<Rightarrow> st" where
  "emit a s = s\<lparr>log := log s @ [a]\<rparr>"

section \<open>Case execution engine\<close>

definition handle_exit :: "int option \<Rightarrow> bool \<Rightarrow> pyval \<Rightarrow> st \<Rightarrow> st" where
  "handle_exit exitcode interrupt tmo s = emit (Handle_exit exitcode interrupt tmo) s"

text \<open>\<open>_handle_timeout\<close>: \<open>has_proc\<close> says that \<open>proc\<close> is not \<open>None\<close>.\<close>

definition handle_timeout :: "bool \<Rightarrow> pyval \<Rightarrow> st \<Rightarrow> st" where
  "handle_timeout has_proc tmo s =
     (if has_proc \<and> poll s = None
      then handle_exit None False tmo (emit Terminate s)
      else s)"

text \<open>\<open>_handle_interrupt\<close>, with the result \<open>w\<close> of \<open>proc.wait(10)\<close>.\<close>

definition handle_interrupt :: "bool \<Rightarrow> int option \<Rightarrow> st \<Rightarrow> st" where
  "handle_interrupt has_proc w s =
     (if has_proc \<and> poll s = None
      then (let s1 = emit (Wait 10) (emit Terminate s)
            in case w of
                 Some code \<Rightarrow> handle_exit (Some code) True VNone (s1\<lparr>poll := Some code\<rparr>)
               | None \<Rightarrow> handle_exit None True VNone s1)
      else s)"

text \<open>The timer is one-shot: its callback runs only while it is pending.\<close>

definition fire_timer :: "pyval \<Rightarrow> st \<Rightarrow> st" where
  "fire_timer tmo s =
     (case timer (self s) of
        Some Pending \<Rightarrow> handle_timeout True tmo (s\<lparr>self := (self s)\<lparr>timer := Some Fired\<rparr>\<rparr>)
      | _ \<Rightarrow> s)"

text \<open>
  \<open>math.isfinite(case.timeout) and case.timeout > 0\<close>. \<open>math.isfinite\<close> converts its
  argument to a float: it raises \<open>TypeError\<close> for a value that is not a number and
  \<open>OverflowError\<close> for an integer beyond the range of a double.
\<close>

definition isfinite :: "pyval \<Rightarrow> exn + bool" where
  "isfinite v =
     (case v of
        VFloat f \<Rightarrow> Inr (case f of Finite _ \<Rightarrow> True | _ \<Rightarrow> False)
      | VInt i \<Rightarrow> if 2 ^ 1024 - 2 ^ 970 \<le> \<bar>i\<bar> then Inl OverflowError else Inr True
      | VBool _ \<Rightarrow> Inr True
      | _ \<Rightarrow> Inl TypeError)"

definition gt_zero :: "pyval \<Rightarrow> bool" where
  "gt_zero v =
     (case v of
        VFloat (Finite q) \<Rightarrow> 0 < q
      | VInt i \<Rightarrow> 0 < i
      | VBool b \<Rightarrow> b
      | _ \<Rightarrow> False)"

definition timeout_wanted :: "pyval \<Rightarrow> exn + bool" where
  "timeout_wanted v =
     (case isfinite v of
        Inl e \<Rightarrow> Inl e
      | Inr fin \<Rightarrow> Inr (fin \<and> gt_zero v))"

datatype loop_end = Break int | Raise exn | Block

text \<open>
  The \<open>while True\<close> loop of \<open>runcase\<close>. A non-empty line goes to the output hook; on an
  empty line the loop ends if \<open>poll()\<close> gives an exit code and goes on otherwise.
\<close>

fun read_loop :: "pyval \<Rightarrow> st \<Rightarrow> env_event list \<Rightarrow> st \<times> loop_end" where
  "read_loop tmo s [] = (s, Block)"
| "read_loop tmo s (Readline line # es) =
     (if line \<noteq> [] then read_loop tmo (emit (Handle_output_line line) s) es
      else (case poll s of
              None \<Rightarrow> read_loop tmo s es
            | Some code \<Rightarrow> (s, Break code)))"
| "read_loop tmo s (Proc_exits code # es) =
     read_loop tmo (if poll s = None then s\<lparr>poll := Some code\<rparr> else s) es"
| "read_loop tmo s (Timer_fires # es) = read_loop tmo (fire_timer tmo s) es"
| "read_loop tmo s (Raises e # es) = (s, Raise e)"

text \<open>The \<open>finally\<close> clause of \<open>runcase\<close>.\<close>

definition finally_clause :: "string list \<Rightarrow> st \<Rightarrow> st" where
  "finally_clause cmd s =
     (let s1 = (if timer (self s) \<noteq> None
                then (emit Timer_cancel s)\<lparr>self := (self s)\<lparr>timer := None\<rparr>\<rparr>
                else s)
      in emit (After_cmd_run cmd) s1)"

text \<open>
  The two \<open>except\<close> clauses followed by \<open>finally\<close>, for an exception \<open>e\<close> raised in the
  \<open>try\<close> block. An exception that neither clause catches leaves \<open>runcase\<close> after the
  \<open>finally\<close> clause has run.
\<close>

definition except_clauses :: "world \<Rightarrow> string list \<Rightarrow> bool \<Rightarrow> exn \<Rightarrow> st \<Rightarrow> st \<times> outcome" where
  "except_clauses w cmd has_proc e s =
     (if e = KeyboardInterrupt
      then (finally_clause cmd (handle_interrupt has_proc (wait10 w) s), Returned)
      else if is_Exception e
      then (finally_clause cmd (emit (Handle_unknown_exception e) s), Returned)
      else (finally_clause cmd s, Raised e))"

text \<open>\<open>self._timer = Timer(case.timeout, ...)\<close> followed by \<open>self._timer.start()\<close>.\<close>

definition start_timer :: "pyval \<Rightarrow> st \<Rightarrow> st" where
  "start_timer tmo s = (emit (Timer_start tmo) s)\<lparr>self := (self s)\<lparr>timer := Some Pending\<rparr>\<rparr>"

text \<open>The \<open>try\<close> statement of \<open>runcase\<close>, entered with the pre-run hook already called.\<close>

definition try_block :: "world \<Rightarrow> TestCaseInfo \<Rightarrow> string list \<Rightarrow> st \<Rightarrow> st \<times> outcome" where
  "try_block w c cmd s0 =
     (let s1 = emit (Popen cmd (env c) (case_dir (self s0))) s0
      in case spawn w of
           Some e \<Rightarrow> except_clauses w cmd False e s1
         | None \<Rightarrow>
             (case timeout_wanted (timeout c) of
                Inl e \<Rightarrow> except_clauses w cmd True e s1
              | Inr armed \<Rightarrow>
                  (let s2 = (if armed then start_timer (timeout c) s1 else s1)
                   in case read_loop (timeout c) s2 (script w) of
                        (s3, Block) \<Rightarrow> (s3, Blocked)
                      | (s3, Raise e) \<Rightarrow> except_clauses w cmd True e s3
                      | (s3, Break code) \<Rightarrow>
                          (let s4 = handle_exit (Some code) False VNone s3
                           in if late_interrupt w
                              then except_clauses w cmd True KeyboardInterrupt s4
                              else (finally_clause cmd s4, Returned)))))"

text \<open>
  \<open>runcase\<close>. Joining the case directory with a name that is not a string raises
  \<open>TypeError\<close>, as does resolving the command with arguments that are not a string; both
  happen before the \<open>try\<close> statement. The result is the actions, the runner afterwards
  and how the call ended.
\<close>

definition runcase :: "runner \<Rightarrow> TestCaseInfo \<Rightarrow> world \<Rightarrow> action list \<times> runner \<times> outcome" where
  "runcase r c w =
     (if skip c then ([Handle_skip (name c) (skipreason c)], r, Returned)
      else case name c of
             VStr n \<Rightarrow>
               (let filepath = joinpath (case_dir r) n
                in case resolve_cmd filepath (args c) of
                     Inl e \<Rightarrow> ([], r, Raised e)
                   | Inr cmd \<Rightarrow>
                       if \<not> (path_name filepath = n \<and> is_file w filepath \<and> cmd \<noteq> None)
                       then ([Handle_unknown_case filepath], r, Returned)
                       else (let s0 = emit (Before_cmd_run (the cmd))
                                        \<lparr>self = r, poll = None, log = []\<rparr>
                             in if dry_run r
                                then (log (handle_exit (Some 0) False VNone s0), r, Returned)
                                else (case try_block w c (the cmd) s0 of
                                        (s, out) \<Rightarrow> (log s, self s, out))))
           | _ \<Rightarrow> ([], r, Raised TypeError))"

section \<open>Batch driver\<close>

text \<open>\<open>d.get(k, dflt)\<close> and \<open>{**a, **b}\<close> on dictionaries.\<close>

definition dict_get :: "(string \<times> pyval) list \<Rightarrow> string \<Rightarrow> pyval \<Rightarrow> pyval" where
  "dict_get d k dflt = (case map_of d k of Some v \<Rightarrow> v | None \<Rightarrow> dflt)"

definition dict_merge :: "(string \<times> pyval) list \<Rightarrow> (string \<times> pyval) list \<Rightarrow> (string \<times> pyval) list" where
  "dict_merge a b = fold (\<lambda>(k, v) m. AList.update k v m) b a"

text \<open>
  The construction of the descriptor in \<open>LocalTestRunner.run\<close>, for the global
  environment \<open>genv\<close> and one entry of the batch:
  \<^verbatim>\<open>TestCaseInfo(case['name'], case.get('args', ''), case.get('timeout', 0),
               {**env, **case.get('env', {})},
               case.get('skip', False) is not False, case.get('skip', 'Skipped'))\<close>
  The arguments are positional, so the third one becomes the field \<open>env\<close> and the
  fourth one the field \<open>timeout\<close>. Subscripting an entry that is not a dictionary
  raises \<open>TypeError\<close>, a missing \<open>name\<close> raises \<open>KeyError\<close>, and unpacking a value that
  is not a dictionary raises \<open>TypeError\<close>.
\<close>

definition caseinfo_of :: "pyval \<Rightarrow> pyval \<Rightarrow> exn + TestCaseInfo" where
  "caseinfo_of genv entry =
     (case entry of
        VDict d \<Rightarrow>
          (case map_of d ''name'' of
             None \<Rightarrow> Inl KeyError
           | Some n \<Rightarrow>
               (case (genv, dict_get d ''env'' (VDict [])) of
                  (VDict g, VDict l) \<Rightarrow>
                    Inr \<lparr> name = n,
                          args = dict_get d ''args'' (VStr []),
                          env = dict_get d ''timeout'' (VInt 0),
                          timeout = VDict (dict_merge g l),
                          skip = (dict_get d ''skip'' (VBool False) \<noteq> VBool False),
                          skipreason = dict_get d ''skip'' (VStr ''Skipped'') \<rparr>
                | _ \<Rightarrow> Inl TypeError))
      | _ \<Rightarrow> Inl TypeError)"

text \<open>
  What a \<open>for\<close> loop iterates over: the items of a list, the keys of a dictionary, the
  characters of a string; any other value is not iterable.
\<close>

fun iterate :: "pyval \<Rightarrow> exn + pyval list" where
  "iterate (VList xs) = Inr xs"
| "iterate (VDict d) = Inr (map (\<lambda>(k, v). VStr k) d)"
| "iterate (VStr s) = Inr (map (\<lambda>c. VStr [c]) s)"
| "iterate _ = Inl TypeError"

text \<open>
  The \<open>for\<close> loop of \<open>run\<close>, from the entry with index \<open>i\<close> on; \<open>ws i\<close> is the
  environment in which entry \<open>i\<close> runs. An exception leaves the loop, and a run that
  never returns keeps the loop from going on.
\<close>

fun run_cases ::
  "(nat \<Rightarrow> world) \<Rightarrow> pyval \<Rightarrow> nat \<Rightarrow> runner \<Rightarrow> pyval list \<Rightarrow> action list \<times> runner \<times> outcome" where
  "run_cases ws genv i r [] = ([], r, Returned)"
| "run_cases ws genv i r (entry # entries) =
     (case caseinfo_of genv entry of
        Inl e \<Rightarrow> ([], r, Raised e)
      | Inr caseinfo \<Rightarrow>
          (case runcase r caseinfo (ws i) of
             (tr, r', Returned) \<Rightarrow>
               (case run_cases ws genv (Suc i) r' entries of
                  (tr', r'', out) \<Rightarrow> (tr @ tr', r'', out))
           | (tr, r', out) \<Rightarrow> (tr, r', out)))"

text \<open>
  The body of the \<open>try\<close> statement of \<open>run\<close>; \<open>data.get\<close> raises \<open>AttributeError\<close>
  when the profile is not a dictionary.
\<close>

definition run_try :: "runner \<Rightarrow> pyval \<Rightarrow> (nat \<Rightarrow> world) \<Rightarrow> action list \<times> runner \<times> outcome" where
  "run_try r data ws =
     (case data of
        VDict d \<Rightarrow>
          (let genv = dict_get d ''env'' (VDict []);
               r1 = r\<lparr>status := Running\<rparr>
           in case map_of d ''cases'' of
                None \<Rightarrow> ([], r1, Raised KeyError)
              | Some cs \<Rightarrow>
                  (case iterate cs of
                     Inl e \<Rightarrow> ([], r1, Raised e)
                   | Inr entries \<Rightarrow> run_cases ws genv 0 r1 entries))
      | _ \<Rightarrow> ([], r, Raised AttributeError))"

text \<open>\<open>LocalTestRunner.run\<close>: the \<open>finally\<close> clause runs whenever the body comes to an end.\<close>

definition run :: "runner \<Rightarrow> pyval \<Rightarrow> (nat \<Rightarrow> world) \<Rightarrow> action list \<times> runner \<times> outcome" where
  "run r data ws =
     (case run_try r data ws of
        (tr, r', Blocked) \<Rightarrow> (tr, r', Blocked)
      | (tr, r', out) \<Rightarrow> (tr, r'\<lparr>status := Idle\<rparr>, out))"

section \<open>Classifying actions, and an example installation\<close>

text \<open>
  The terminal outcomes of a run are the calls of \<open>_handle_exit\<close> (exit, timeout and
  interruption reports) and of \<open>_handle_unknown_exception\<close>.
\<close>

fun terminal :: "action \<Rightarrow> bool" where
  "terminal (Handle_exit _ _ _) = True"
| "terminal (Handle_unknown_exception _) = True"
| "terminal _ = False"

fun interrupted :: "action \<Rightarrow> bool" where
  "interrupted (Handle_exit _ i _) = i"
| "interrupted _ = False"

fun hook :: "action \<Rightarrow> bool" where
  "hook (Before_cmd_run _) = True"
| "hook (After_cmd_run _) = True"
| "hook _ = False"

text \<open>
  A case is resolved to \<open>cmd\<close> when it is not skipped and passes the test of \<open>runcase\<close>:
  its name is a string, the last segment of the joined path is that name, the path is a
  regular file and the resolver returns \<open>cmd\<close>.
\<close>

definition resolves :: "runner \<Rightarrow> TestCaseInfo \<Rightarrow> world \<Rightarrow> string list \<Rightarrow> bool" where
  "resolves r c w cmd =
     (\<not> skip c \<and>
      (case name c of
         VStr n \<Rightarrow>
           path_name (joinpath (case_dir r) n) = n \<and>
           is_file w (joinpath (case_dir r) n) \<and>
           resolve_cmd (joinpath (case_dir r) n) (args c) = Inr (Some cmd)
       | _ \<Rightarrow> False))"



text \<open>
  An installation under \<open>/opt/sof\<close> whose case directory holds the regular files
  \<open>a.sh\<close> and \<open>b.py\<close>, a world in which a child is created and \<open>wait(10)\<close> times
  out, and a case \<open>a.sh -x\<close> with a timeout of 0.2 seconds.
\<close>

definition example_root :: path where
  "example_root = Path ''/'' [''opt'', ''sof'']"

definition example_files :: "path \<Rightarrow> bool" where
  "example_files p =
     (fspath p \<in> set [''/opt/sof/test-case/a.sh'', ''/opt/sof/test-case/b.py''])"

definition example_world :: "env_event list \<Rightarrow> world" where
  "example_world es =
     \<lparr> is_file = example_files, spawn = None, script = es, wait10 = None,
       late_interrupt = False \<rparr>"

definition example_case :: TestCaseInfo where
  "example_case =
     \<lparr> name = VStr ''a.sh'', args = VStr ''-x'', env = VDict [],
       timeout = VFloat (Finite (1 / 5)), skip = False, skipreason = VStr [] \<rparr>"

definition example_cmd :: "string list" where
  "example_cmd = [''bash'', ''-c'', ''/opt/sof/test-case/a.sh -x'']"

section \<open>Properties of the handlers and of the read loop\<close>

lemma log_emit [simp]: "log (emit a s) = log s @ [a]"
  and poll_emit [simp]: "poll (emit a s) = poll s"
  and self_emit [simp]: "self (emit a s) = self s"
  by (simp_all add: emit_def)

lemma poll_fire_timer [simp]: "poll (fire_timer tmo s) = poll s"
  by (simp add: fire_timer_def handle_timeout_def handle_exit_def
      split: option.splits timer_status.splits)

lemma self_fire_timer [simp]:
  "status (self (fire_timer tmo s)) = status (self s)"
  "case_dir (self (fire_timer tmo s)) = case_dir (self s)"
  "log_dir (self (fire_timer tmo s)) = log_dir (self s)"
  "dry_run (self (fire_timer tmo s)) = dry_run (self s)"
  by (simp_all add: fire_timer_def handle_timeout_def handle_exit_def
      split: option.splits timer_status.splits)

lemma filter_log_fire_timer:
  assumes "\<not> Q Terminate" and "\<not> Q (Handle_exit None False tmo)"
  shows "filter Q (log (fire_timer tmo s)) = filter Q (log s)"
  using assms
  by (simp add: fire_timer_def handle_timeout_def handle_exit_def
      split: option.splits timer_status.splits)

lemma prefix_log_fire_timer: "prefix (log s) (log (fire_timer tmo s))"
  by (simp add: fire_timer_def handle_timeout_def handle_exit_def
      split: option.splits timer_status.splits)

lemma terminal_fire_timer:
  "length (filter terminal (log (fire_timer tmo s)))
     + (if timer (self (fire_timer tmo s)) = Some Pending then 1 else 0)
   \<le> length (filter terminal (log s)) + (if timer (self s) = Some Pending then 1 else 0)"
  by (simp add: fire_timer_def handle_timeout_def handle_exit_def
      split: option.splits timer_status.splits)

lemma read_loop_filter_log:
  assumes "\<And>l. \<not> Q (Handle_output_line l)"
    and "Timer_fires \<in> set es \<Longrightarrow> \<not> Q Terminate \<and> \<not> Q (Handle_exit None False tmo)"
  shows "filter Q (log (fst (read_loop tmo s es))) = filter Q (log s)"
  using assms(2)
proof (induction tmo s es rule: read_loop.induct)
  case (2 tmo s line es)
  then show ?case using assms(1) by (simp split: option.splits)
next
  case (4 tmo s es)
  then show ?case by (simp add: filter_log_fire_timer)
qed simp_all

lemma read_loop_self:
  "status (self (fst (read_loop tmo s es))) = status (self s) \<and>
   case_dir (self (fst (read_loop tmo s es))) = case_dir (self s) \<and>
   log_dir (self (fst (read_loop tmo s es))) = log_dir (self s) \<and>
   dry_run (self (fst (read_loop tmo s es))) = dry_run (self s)"
  by (induction tmo s es rule: read_loop.induct) (simp_all split: option.splits)

lemma read_loop_prefix: "prefix (log s) (log (fst (read_loop tmo s es)))"
proof (induction tmo s es rule: read_loop.induct)
  case (2 tmo s line es)
  then show ?case by (auto split: option.splits dest: append_prefixD)
next
  case (3 tmo s code es)
  then show ?case by (cases "poll s") simp_all
next
  case (4 tmo s es)
  have "prefix (log s) (log (fire_timer tmo s))" by (rule prefix_log_fire_timer)
  also have "prefix \<dots> (log (fst (read_loop tmo (fire_timer tmo s) es)))" by (rule 4)
  finally show ?case by simp
qed simp_all

lemma read_loop_terminal:
  "length (filter terminal (log (fst (read_loop tmo s es))))
   \<le> length (filter terminal (log s)) + (if timer (self s) = Some Pending then 1 else 0)"
proof (induction tmo s es rule: read_loop.induct)
  case (2 tmo s line es)
  then show ?case by (cases "line = []"; cases "poll s") auto
next
  case (3 tmo s code es)
  then show ?case by (cases "poll s") auto
next
  case (4 tmo s es)
  then show ?case using terminal_fire_timer [of tmo s] by simp
qed simp_all



lemma read_loop_result:
  assumes "read_loop tmo s es = (s', le)"
  shows "prefix (log s) (log s')"
    and "filter hook (log s') = filter hook (log s)"
    and "filter interrupted (log s') = filter interrupted (log s)"
    and "status (self s') = status (self s)"
    and "Timer_fires \<notin> set es \<Longrightarrow> filter terminal (log s') = filter terminal (log s)"
    and "length (filter terminal (log s'))
         \<le> length (filter terminal (log s)) + (if timer (self s) = Some Pending then 1 else 0)"
proof -
  have s': "s' = fst (read_loop tmo s es)" using assms by simp
  show "prefix (log s) (log s')" unfolding s' by (rule read_loop_prefix)
  show "filter hook (log s') = filter hook (log s)"
    unfolding s' by (rule read_loop_filter_log) simp_all
  show "filter interrupted (log s') = filter interrupted (log s)"
    unfolding s' by (rule read_loop_filter_log) simp_all
  show "status (self s') = status (self s)" unfolding s' using read_loop_self by blast
  show "Timer_fires \<notin> set es \<Longrightarrow> filter terminal (log s') = filter terminal (log s)"
    unfolding s' by (rule read_loop_filter_log) simp_all
  show "length (filter terminal (log s'))
         \<le> length (filter terminal (log s)) + (if timer (self s) = Some Pending then 1 else 0)"
    unfolding s' by (rule read_loop_terminal)
qed

lemma log_finally_clause:
  "log (finally_clause cmd s) =
     log s @ (if timer (self s) \<noteq> None then [Timer_cancel] else []) @ [After_cmd_run cmd]"
  by (simp add: finally_clause_def)

lemma self_finally_clause:
  "self (finally_clause cmd s) = (self s)\<lparr>timer := None\<rparr>"
  by (cases "self s") (simp add: finally_clause_def)

lemma log_handle_interrupt:
  "log (handle_interrupt has_proc wt s) =
     log s @ (if has_proc \<and> poll s = None
              then [Terminate, Wait 10, Handle_exit wt True VNone] else [])"
  by (simp add: handle_interrupt_def handle_exit_def Let_def split: option.splits)

lemma self_handle_interrupt [simp]: "self (handle_interrupt has_proc wt s) = self s"
  by (simp add: handle_interrupt_def handle_exit_def Let_def split: option.splits)

lemma log_handle_exit [simp]:
  "log (handle_exit code i tmo s) = log s @ [Handle_exit code i tmo]"
  and self_handle_exit [simp]: "self (handle_exit code i tmo s) = self s"
  and poll_handle_exit [simp]: "poll (handle_exit code i tmo s) = poll s"
  by (simp_all add: handle_exit_def)

lemma start_timer_simps [simp]:
  "log (start_timer tmo s) = log s @ [Timer_start tmo]"
  "poll (start_timer tmo s) = poll s"
  "self (start_timer tmo s) = (self s)\<lparr>timer := Some Pending\<rparr>"
  by (simp_all add: start_timer_def)

text \<open>The \<open>try\<close> statement once the child exists and the timeout test has passed.\<close>

lemma try_block_loop:
  assumes "spawn w = None" and "timeout_wanted (timeout c) = Inr armed"
    and "read_loop (timeout c)
           (if armed then start_timer (timeout c) (emit (Popen cmd (env c) (case_dir (self s0))) s0)
            else emit (Popen cmd (env c) (case_dir (self s0))) s0)
           (script w) = (s3, le)"
  shows "try_block w c cmd s0 =
       (case le of
          Block \<Rightarrow> (s3, Blocked)
        | Raise e \<Rightarrow> except_clauses w cmd True e s3
        | Break code \<Rightarrow>
            (if late_interrupt w
             then except_clauses w cmd True KeyboardInterrupt (handle_exit (Some code) False VNone s3)
             else (finally_clause cmd (handle_exit (Some code) False VNone s3), Returned)))"
  using assms by (cases armed) (simp_all add: try_block_def Let_def)

text \<open>Every way out of the \<open>try\<close> statement other than blocking goes through \<open>finally\<close>.\<close>

lemma try_block_finally:
  assumes "try_block w c cmd s0 = (s, out)" and "out \<noteq> Blocked"
  shows "\<exists>s'. s = finally_clause cmd s'
              \<and> prefix (log s0) (log s')
              \<and> filter hook (log s') = filter hook (log s0)
              \<and> status (self s') = status (self s0)"
proof (cases "spawn w")
  case (Some e)
  with assms show ?thesis
    by (auto simp: try_block_def except_clauses_def Let_def log_handle_interrupt
        split: if_splits)
next
  case None
  show ?thesis
  proof (cases "timeout_wanted (timeout c)")
    case (Inl e)
    with None assms show ?thesis
      by (auto simp: try_block_def except_clauses_def Let_def log_handle_interrupt
          split: if_splits)
  next
    case (Inr armed)
    define s2 where "s2 = (if armed
                 then start_timer (timeout c) (emit (Popen cmd (env c) (case_dir (self s0))) s0)
                 else emit (Popen cmd (env c) (case_dir (self s0))) s0)"
    obtain s3 le where loop: "read_loop (timeout c) s2 (script w) = (s3, le)"
      by (cases "read_loop (timeout c) s2 (script w)")
    have p2: "prefix (log s0) (log s2)" and h2: "filter hook (log s2) = filter hook (log s0)"
      and st2: "status (self s2) = status (self s0)"
      by (simp_all add: s2_def)
    note facts = read_loop_result(1,2,4) [OF loop]
    have p3: "prefix (log s0) (log s3)" using p2 facts(1) by (rule prefix_order.trans)
    have h3: "filter hook (log s3) = filter hook (log s0)" using h2 facts(2) by simp
    have st3: "status (self s3) = status (self s0)" using st2 facts(3) by simp
    note tb = try_block_loop [OF None Inr loop [unfolded s2_def]]
    show ?thesis
    proof (cases le)
      case Block
      with tb assms show ?thesis by simp
    next
      case (Raise e)
      with tb assms p3 h3 st3 show ?thesis
        by (auto simp: except_clauses_def log_handle_interrupt split: if_splits)
    next
      case (Break code)
      with tb assms p3 h3 st3 show ?thesis
        by (auto simp: except_clauses_def log_handle_interrupt split: if_splits)
    qed
  qed
qed

lemma runcase_resolved:
  assumes "resolves r c w cmd"
  shows "runcase r c w =
     (if dry_run r
      then ([Before_cmd_run cmd, Handle_exit (Some 0) False VNone], r, Returned)
      else (case try_block w c cmd (emit (Before_cmd_run cmd) \<lparr>self = r, poll = None, log = []\<rparr>) of
              (s, out) \<Rightarrow> (log s, self s, out)))"
  using assms by (auto simp: resolves_def runcase_def Let_def split: pyval.splits)

lemma except_clauses_not_Blocked [simp]:
  "except_clauses w cmd has_proc e s \<noteq> (s', Blocked)"
  "(s', Blocked) \<noteq> except_clauses w cmd has_proc e s"
  by (simp_all add: except_clauses_def)




section \<open>The command resolver\<close>

text \<open>
  Claim C6. Given a file path and an argument string, the resolver returns a \<open>bash -c\<close>
  invocation for the extensions \<open>.sh\<close> and \<open>.bash\<close> and a \<open>python -c\<close> invocation for
  the extension \<open>.py\<close>, each with the single command string "path, space, arguments",
  and \<open>None\<close> for every other extension.
\<close>

theorem resolve_cmd_dispatch:
  "resolve_cmd filepath (VStr a) =
     (if path_suffix filepath = ''.sh'' \<or> path_suffix filepath = ''.bash''
      then Inr (Some [''bash'', ''-c'', fspath filepath @ '' '' @ a])
      else if path_suffix filepath = ''.py''
      then Inr (Some [''python'', ''-c'', fspath filepath @ '' '' @ a])
      else Inr None)"
  by (simp add: resolve_cmd_def Let_def)

theorem resolve_cmd_dispatch_witness:
  "resolve_cmd (Path ''/'' [''opt'', ''sof'', ''test-case'', ''a.sh'']) (VStr ''-x'') =
     Inr (Some [''bash'', ''-c'', ''/opt/sof/test-case/a.sh -x''])
   \<and> resolve_cmd (Path ''/'' [''opt'', ''sof'', ''test-case'', ''c.tar.bash'']) (VStr []) =
     Inr (Some [''bash'', ''-c'', ''/opt/sof/test-case/c.tar.bash ''])
   \<and> resolve_cmd (Path ''/'' [''opt'', ''sof'', ''test-case'', ''b.py'']) (VStr ''1 2'') =
     Inr (Some [''python'', ''-c'', ''/opt/sof/test-case/b.py 1 2''])
   \<and> resolve_cmd (Path ''/'' [''opt'', ''sof'', ''test-case'', ''d.txt'']) (VStr ''-x'') = Inr None
   \<and> resolve_cmd (Path ''/'' [''opt'', ''sof'', ''test-case'', ''.sh'']) (VStr ''-x'') = Inr None"
  using resolve_cmd_dispatch [of "Path ''/'' [''opt'', ''sof'', ''test-case'', ''a.sh'']" "''-x''"]
    resolve_cmd_dispatch [of "Path ''/'' [''opt'', ''sof'', ''test-case'', ''c.tar.bash'']" "[]"]
    resolve_cmd_dispatch [of "Path ''/'' [''opt'', ''sof'', ''test-case'', ''b.py'']" "''1 2''"]
    resolve_cmd_dispatch [of "Path ''/'' [''opt'', ''sof'', ''test-case'', ''d.txt'']" "''-x''"]
    resolve_cmd_dispatch [of "Path ''/'' [''opt'', ''sof'', ''test-case'', ''.sh'']" "''-x''"]
  by (simp add: path_suffix_def path_name_def fspath_def)

section \<open>The descriptors built by the batch driver\<close>

text \<open>
  Claim C2 says that the descriptor of a batch entry has the merged environment in its
  field \<open>env\<close> and the entry's timeout in its field \<open>timeout\<close>. For the profile
  \<^verbatim>\<open>{"env": {"A": "1"}, "cases": [{"name": "a.sh", "timeout": 5, "env": {"K": "v"}}]}\<close>
  the descriptor has the timeout 5 in \<open>env\<close> and the merged environment in \<open>timeout\<close>.
\<close>

theorem caseinfo_env_timeout_swapped:
  "caseinfo_of (VDict [(''A'', VStr ''1'')])
     (VDict [(''name'', VStr ''a.sh''), (''timeout'', VInt 5),
             (''env'', VDict [(''K'', VStr ''v'')])]) =
   Inr \<lparr> name = VStr ''a.sh'', args = VStr [], env = VInt 5,
         timeout = VDict [(''A'', VStr ''1''), (''K'', VStr ''v'')],
         skip = False, skipreason = VStr ''Skipped'' \<rparr>"
  by (simp add: caseinfo_of_def dict_get_def dict_merge_def)

text \<open>
  Claim C9 says that a \<open>skip\<close> value that is truthy without being a string gives the
  skip reason \<open>''Skipped''\<close>. For the entry \<^verbatim>\<open>{"name": "a.sh", "skip": true}\<close> the
  descriptor is marked skipped and its reason is the value \<open>True\<close> itself, which is what
  the skip hook receives.
\<close>

theorem caseinfo_skip_true_reason:
  "caseinfo_of (VDict []) (VDict [(''name'', VStr ''a.sh''), (''skip'', VBool True)]) =
   Inr \<lparr> name = VStr ''a.sh'', args = VStr [], env = VInt 0, timeout = VDict [],
         skip = True, skipreason = VBool True \<rparr>
   \<and> fst (run (init example_root False)
             (VDict [(''cases'', VList [VDict [(''name'', VStr ''a.sh''), (''skip'', VBool True)]])])
             (\<lambda>i. example_world [])) =
     [Handle_skip (VStr ''a.sh'') (VBool True)]"
  by (simp add: caseinfo_of_def dict_get_def dict_merge_def run_def run_try_def runcase_def)

section \<open>The runner status\<close>



section \<open>More on the read loop and the timer\<close>

lemma mem_filter_eq: "x \<in> set xs \<longleftrightarrow> filter (\<lambda>a. a = x) xs \<noteq> []"
  by (induction xs) auto

lemma timer_fire_timer: "timer (self s) \<noteq> None \<Longrightarrow> timer (self (fire_timer tmo s)) \<noteq> None"
  by (auto simp: fire_timer_def handle_timeout_def handle_exit_def
      split: option.splits timer_status.splits)

lemma read_loop_timer_kept:
  "timer (self s) \<noteq> None \<Longrightarrow> timer (self (fst (read_loop tmo s es))) \<noteq> None"
proof (induction tmo s es rule: read_loop.induct)
  case (2 tmo s line es)
  then show ?case by (cases "line = []"; cases "poll s") auto
next
  case (3 tmo s code es)
  then show ?case by (cases "poll s") auto
next
  case (4 tmo s es)
  then show ?case using timer_fire_timer [of s tmo] by simp
qed simp_all

lemma read_loop_Timer_start:
  "Timer_start t \<in> set (log (fst (read_loop tmo s es))) \<longleftrightarrow> Timer_start t \<in> set (log s)"
proof -
  have "filter (\<lambda>a. a = Timer_start t) (log (fst (read_loop tmo s es)))
        = filter (\<lambda>a. a = Timer_start t) (log s)"
    by (rule read_loop_filter_log) simp_all
  then show ?thesis by (simp only: mem_filter_eq)
qed

text \<open>A timer that was started in the \<open>try\<close> statement is still set when \<open>finally\<close> begins.\<close>

lemma try_block_timer:
  assumes "try_block w c cmd s0 = (s, out)" and "out \<noteq> Blocked"
    and "Timer_start (timeout c) \<notin> set (log s0)"
  shows "\<exists>s'. s = finally_clause cmd s'
              \<and> (Timer_start (timeout c) \<in> set (log s') \<longrightarrow> timer (self s') \<noteq> None)"
proof (cases "spawn w")
  case (Some e)
  with assms show ?thesis
    by (auto simp: try_block_def except_clauses_def Let_def log_handle_interrupt
        split: if_splits)
next
  case None
  show ?thesis
  proof (cases "timeout_wanted (timeout c)")
    case (Inl e)
    with None assms show ?thesis
      by (auto simp: try_block_def except_clauses_def Let_def log_handle_interrupt
          split: if_splits)
  next
    case (Inr armed)
    define s2 where "s2 = (if armed
                 then start_timer (timeout c) (emit (Popen cmd (env c) (case_dir (self s0))) s0)
                 else emit (Popen cmd (env c) (case_dir (self s0))) s0)"
    obtain s3 le where loop: "read_loop (timeout c) s2 (script w) = (s3, le)"
      by (cases "read_loop (timeout c) s2 (script w)")
    have s3: "s3 = fst (read_loop (timeout c) s2 (script w))" using loop by simp
    have k2: "Timer_start (timeout c) \<in> set (log s2) \<longrightarrow> timer (self s2) \<noteq> None"
      using assms(3) by (simp add: s2_def)
    have k3: "Timer_start (timeout c) \<in> set (log s3) \<longrightarrow> timer (self s3) \<noteq> None"
      unfolding s3 using k2 read_loop_Timer_start read_loop_timer_kept by blast
    note tb = try_block_loop [OF None Inr loop [unfolded s2_def]]
    show ?thesis
    proof (cases le)
      case Block
      with tb assms show ?thesis by simp
    next
      case (Raise e)
      with tb assms k3 show ?thesis
        by (auto simp: except_clauses_def log_handle_interrupt split: if_splits)
    next
      case (Break code)
      with tb assms k3 show ?thesis
        by (auto simp: except_clauses_def log_handle_interrupt split: if_splits)
    qed
  qed
qed

section \<open>The pre-run and post-run hooks\<close>

text \<open>
  Claim C3, as the code has it. For a non-skipped case that resolves to \<open>cmd\<close>: in
  dry-run mode \<open>runcase\<close> calls the pre-run hook and reports exit code 0, and nothing
  else; otherwise, whenever the call comes to an end (it returns or an exception leaves
  it), the hooks called are exactly the pre-run hook, first of all actions, and the
  post-run hook, last of all actions, each once and with \<open>cmd\<close>; the timer field is
  \<open>None\<close> afterwards, and a timer that was started has been cancelled.
\<close>

theorem hooks_bracket_run:
  assumes "resolves r c w cmd" and "runcase r c w = (tr, r', out)"
  shows "(dry_run r \<longrightarrow>
            tr = [Before_cmd_run cmd, Handle_exit (Some 0) False VNone] \<and> r' = r \<and> out = Returned)
       \<and> (\<not> dry_run r \<and> out \<noteq> Blocked \<longrightarrow>
            filter hook tr = [Before_cmd_run cmd, After_cmd_run cmd]
            \<and> hd tr = Before_cmd_run cmd \<and> last tr = After_cmd_run cmd
            \<and> timer r' = None
            \<and> (Timer_start (timeout c) \<in> set tr \<longrightarrow> Timer_cancel \<in> set tr))"
proof -
  have dry: "tr = [Before_cmd_run cmd, Handle_exit (Some 0) False VNone] \<and> r' = r \<and> out = Returned"
    if "dry_run r"
    using assms that by (simp add: runcase_resolved)
  have live: "filter hook tr = [Before_cmd_run cmd, After_cmd_run cmd]
            \<and> hd tr = Before_cmd_run cmd \<and> last tr = After_cmd_run cmd
            \<and> timer r' = None
            \<and> (Timer_start (timeout c) \<in> set tr \<longrightarrow> Timer_cancel \<in> set tr)"
    if live: "\<not> dry_run r \<and> out \<noteq> Blocked"
  proof -
    let ?s0 = "emit (Before_cmd_run cmd) \<lparr>self = r, poll = None, log = []\<rparr>"
    obtain s where tb: "try_block w c cmd ?s0 = (s, out)" and tr: "tr = log s" and r': "r' = self s"
      using assms live by (auto simp: runcase_resolved split: prod.splits)
    from try_block_finally [OF tb] live obtain s' where
      s: "s = finally_clause cmd s'" and pre: "prefix (log ?s0) (log s')"
      and hk: "filter hook (log s') = filter hook (log ?s0)"
      by blast
    from pre obtain ext where ext: "log s' = Before_cmd_run cmd # ext"
      by (auto simp: prefix_def)
    have 1: "filter hook tr = [Before_cmd_run cmd, After_cmd_run cmd]"
      using hk by (simp add: tr s log_finally_clause)
    have 2: "hd tr = Before_cmd_run cmd" by (simp add: tr s log_finally_clause ext)
    have 3: "last tr = After_cmd_run cmd" by (simp add: tr s log_finally_clause)
    have 4: "timer r' = None" by (simp add: r' s self_finally_clause)
    have 5: "Timer_cancel \<in> set tr" if "Timer_start (timeout c) \<in> set tr"
    proof -
      from try_block_timer [OF tb] live obtain s'' where
        s2: "s = finally_clause cmd s''"
        and k: "Timer_start (timeout c) \<in> set (log s'') \<longrightarrow> timer (self s'') \<noteq> None"
        by auto
      from that have "Timer_start (timeout c) \<in> set (log s'')"
        by (auto simp: tr s2 log_finally_clause split: if_splits)
      with k show ?thesis by (simp add: tr s2 log_finally_clause)
    qed
    from 1 2 3 4 5 show ?thesis by blast
  qed
  from dry live show ?thesis by blast
qed

lemmas path_defs = joinpath_def parse_path_def path_name_def path_suffix_def fspath_def

lemmas example_defs = init_def example_root_def example_world_def example_files_def
  example_case_def example_cmd_def

lemmas engine_defs = try_block_def except_clauses_def finally_clause_def timeout_wanted_def
  isfinite_def gt_zero_def handle_interrupt_def handle_timeout_def fire_timer_def

lemma example_resolves:
  "resolves (init example_root dry) example_case (example_world es) example_cmd"
  by (simp add: resolves_def example_defs path_defs resolve_cmd_def)

lemmas eval_defs = runcase_def resolve_cmd_def engine_defs example_defs path_defs
  emit_def handle_exit_def start_timer_def Let_def

lemma example_run_exit:
  "runcase (init example_root False) example_case
     (example_world [Readline ''ok'', Proc_exits 0, Readline []]) =
   ([Before_cmd_run example_cmd,
     Popen example_cmd (VDict []) (Path ''/'' [''opt'', ''sof'', ''test-case'']),
     Timer_start (VFloat (Finite (1 / 5))), Handle_output_line ''ok'',
     Handle_exit (Some 0) False VNone, Timer_cancel, After_cmd_run example_cmd],
    init example_root False, Returned)"
  by (simp add: eval_defs)

theorem hooks_bracket_run_witness:
  "resolves (init example_root True) example_case (example_world []) example_cmd
   \<and> dry_run (init example_root True)
   \<and> runcase (init example_root True) example_case (example_world []) =
       ([Before_cmd_run example_cmd, Handle_exit (Some 0) False VNone], init example_root True, Returned)
   \<and> resolves (init example_root False) example_case
        (example_world [Readline ''ok'', Proc_exits 0, Readline []]) example_cmd
   \<and> \<not> dry_run (init example_root False)
   \<and> snd (snd (runcase (init example_root False) example_case
        (example_world [Readline ''ok'', Proc_exits 0, Readline []]))) \<noteq> Blocked
   \<and> filter hook (fst (runcase (init example_root False) example_case
        (example_world [Readline ''ok'', Proc_exits 0, Readline []]))) =
       [Before_cmd_run example_cmd, After_cmd_run example_cmd]
   \<and> Timer_cancel \<in> set (fst (runcase (init example_root False) example_case
        (example_world [Readline ''ok'', Proc_exits 0, Readline []])))"
proof -
  let ?w = "example_world [Readline ''ok'', Proc_exits 0, Readline []]"
  obtain tr r' out where rc: "runcase (init example_root False) example_case ?w = (tr, r', out)"
    by (cases "runcase (init example_root False) example_case ?w")
  have out: "out \<noteq> Blocked" and started: "Timer_start (timeout example_case) \<in> set tr"
    using rc [unfolded example_run_exit] by (auto simp: example_case_def)
  obtain tr0 r0 out0 where rc0:
    "runcase (init example_root True) example_case (example_world []) = (tr0, r0, out0)"
    by (cases "runcase (init example_root True) example_case (example_world [])")
  have dry: "dry_run (init example_root True)" and live: "\<not> dry_run (init example_root False)"
    by (simp_all add: init_def)
  from hooks_bracket_run [OF example_resolves rc0] dry rc0
    hooks_bracket_run [OF example_resolves rc] live out started rc example_resolves
  show ?thesis by simp
qed

text \<open>
  The claim includes dry-run mode, and there the post-run hook is not called: \<open>runcase\<close>
  returns before its \<open>try\<close> statement.
\<close>

theorem dry_run_no_post_hook:
  "resolves (init example_root True) example_case (example_world []) example_cmd
   \<and> fst (runcase (init example_root True) example_case (example_world [])) =
       [Before_cmd_run example_cmd, Handle_exit (Some 0) False VNone]
   \<and> After_cmd_run example_cmd \<notin>
       set (fst (runcase (init example_root True) example_case (example_world [])))"
  by (simp add: example_resolves runcase_resolved [OF example_resolves]) (simp add: init_def)

section \<open>Unknown cases\<close>



section \<open>Terminal outcomes\<close>


lemma terminal_finally_clause [simp]:
  "filter terminal (log (finally_clause cmd s)) = filter terminal (log s)"
  by (simp add: log_finally_clause)








section \<open>Interrupts\<close>















section \<open>Exceptions\<close>









end
